theory Spec2Isabelle
  imports Main "HOL-Library.Word" "HOL-Library.Monad_Syntax"
begin

unbundle bit_operations_syntax

section \<open>Target selection\<close>

text \<open>
  The header \<^verbatim>\<open>atomic_intrinsics_gcc.h\<close> has two bodies for every operation, chosen by
  \<^verbatim>\<open>#if defined(__arm__)\<close>: the compiler built-ins on ARM, inline assembly on IA-32 and
  AMD64. The model takes the branch as a parameter.
\<close>

datatype arch = ARM | X86

section \<open>Hardware instructions and compiler built-ins\<close>

text \<open>
  The cell \<^verbatim>\<open>*dest\<close> is passed in and handed back: each primitive maps the operands and the
  cell's value to the value it leaves in the register (or returns) and the value it leaves in
  the cell. A word type \<^verbatim>\<open>T\<close> of the native width is \<^typ>\<open>'a word\<close>.
\<close>

text \<open>
  \<^verbatim>\<open>__sync_val_compare_and_swap(ptr, oldval, newval)\<close>: if the current value of \<^verbatim>\<open>*ptr\<close> is
  \<^verbatim>\<open>oldval\<close>, write \<^verbatim>\<open>newval\<close> into \<^verbatim>\<open>*ptr\<close>; return the contents of \<^verbatim>\<open>*ptr\<close> before the
  operation.
\<close>

definition sync_val_compare_and_swap ::
  "'a::len word \<Rightarrow> 'a word \<Rightarrow> 'a word \<Rightarrow> 'a word \<times> 'a word" where
  "sync_val_compare_and_swap ptr oldval newval =
     (ptr, if ptr = oldval then newval else ptr)"

text \<open>
  \<^verbatim>\<open>__sync_lock_test_and_set(ptr, value)\<close>: write \<^verbatim>\<open>value\<close> into \<^verbatim>\<open>*ptr\<close> and return the
  previous contents of \<^verbatim>\<open>*ptr\<close>.
\<close>

definition sync_lock_test_and_set :: "'a::len word \<Rightarrow> 'a word \<Rightarrow> 'a word \<times> 'a word" where
  "sync_lock_test_and_set ptr v = (ptr, v)"

text \<open>
  \<^verbatim>\<open>__sync_lock_release(ptr)\<close>: release the lock acquired by
  \<^verbatim>\<open>__sync_lock_test_and_set\<close>, which writes the constant 0 to \<^verbatim>\<open>*ptr\<close>.
\<close>

definition sync_lock_release :: "'a::len word \<Rightarrow> 'a word" where
  "sync_lock_release ptr = 0"

text \<open>
  \<^verbatim>\<open>__sync_fetch_and_add(ptr, value)\<close>: \<^verbatim>\<open>{ tmp = *ptr; *ptr += value; return tmp; }\<close>.
\<close>

definition sync_fetch_and_add :: "'a::len word \<Rightarrow> 'a word \<Rightarrow> 'a word \<times> 'a word" where
  "sync_fetch_and_add ptr v = (ptr, ptr + v)"

text \<open>
  \<^verbatim>\<open>__sync_synchronize()\<close> and \<^verbatim>\<open>mfence\<close> are full memory barriers: they order the memory
  accesses around them and change no value.
\<close>

definition sync_synchronize :: "'a::len word \<Rightarrow> 'a word" where
  "sync_synchronize m = m"

definition mfence :: "'a::len word \<Rightarrow> 'a word" where
  "mfence m = m"

text \<open>
  \<^verbatim>\<open>lock cmpxchg src, dest\<close> compares the accumulator with the destination operand: if they
  are equal the source operand is stored into the destination, otherwise the destination is
  loaded into the accumulator. The result is the pair (accumulator, destination).
\<close>

definition lock_cmpxchg :: "'a::len word \<Rightarrow> 'a word \<Rightarrow> 'a word \<Rightarrow> 'a word \<times> 'a word" where
  "lock_cmpxchg src acc dest = (if acc = dest then (acc, src) else (dest, dest))"

text \<open>\<^verbatim>\<open>xchg r, dest\<close> exchanges the register with the destination: (register, destination).\<close>

definition xchg :: "'a::len word \<Rightarrow> 'a word \<Rightarrow> 'a word \<times> 'a word" where
  "xchg r dest = (dest, r)"

text \<open>
  \<^verbatim>\<open>lock xadd src, dest\<close>: \<^verbatim>\<open>temp := src + dest; src := dest; dest := temp\<close>; the result is
  the pair (source register, destination).
\<close>

definition lock_xadd :: "'a::len word \<Rightarrow> 'a word \<Rightarrow> 'a word \<times> 'a word" where
  "lock_xadd src dest = (dest, src + dest)"

section \<open>Word types no wider than a pointer\<close>

text \<open>
  \<^verbatim>\<open>AtomicIntrinsics<T>\<close> for \<^verbatim>\<open>sizeof(T) <= sizeof(void*)\<close>. Every operation takes the
  value of the cell behind the pointer and returns its result with the cell's new value;
  \<^verbatim>\<open>store\<close>, which returns \<^verbatim>\<open>void\<close>, returns the cell alone.
\<close>

definition compareAndSwap :: "arch \<Rightarrow> 'a::len word \<Rightarrow> 'a word \<Rightarrow> 'a word \<Rightarrow> 'a word \<times> 'a word" where
  "compareAndSwap a dest expected newValue =
     (case a of
        ARM \<Rightarrow> sync_val_compare_and_swap dest expected newValue
      | X86 \<Rightarrow> lock_cmpxchg newValue expected dest)"

definition swap :: "arch \<Rightarrow> 'a::len word \<Rightarrow> 'a word \<Rightarrow> 'a word \<times> 'a word" where
  "swap a dest newValue =
     (let result = newValue in
      case a of
        ARM \<Rightarrow>
          (let (result, dest) = sync_lock_test_and_set dest newValue;
               dest = sync_lock_release dest
           in (result, dest))
      | X86 \<Rightarrow> xchg result dest)"

definition load :: "arch \<Rightarrow> 'a::len word \<Rightarrow> 'a word \<times> 'a word" where
  "load a val =
     (case a of
        ARM \<Rightarrow>
          (let val = sync_synchronize val;
               result = val;
               val = sync_synchronize val
           in (result, val))
      | X86 \<Rightarrow>
          (let val = mfence val;
               result = val;
               val = mfence val
           in (result, val)))"

definition loadRelaxed :: "'a::len word \<Rightarrow> 'a word \<times> 'a word" where
  "loadRelaxed val = (val, val)"

definition store :: "arch \<Rightarrow> 'a::len word \<Rightarrow> 'a word \<Rightarrow> 'a word" where
  "store a dest newValue =
     (case a of
        ARM \<Rightarrow>
          (let dest = sync_synchronize dest;
               dest = newValue
           in sync_synchronize dest)
      | X86 \<Rightarrow>
          (let dest = mfence dest;
               dest = newValue
           in mfence dest))"

definition fetchAndAdd :: "arch \<Rightarrow> 'a::len word \<Rightarrow> 'a word \<Rightarrow> 'a word \<times> 'a word" where
  "fetchAndAdd a dest increment =
     (let result = increment in
      case a of
        ARM \<Rightarrow> sync_fetch_and_add dest increment
      | X86 \<Rightarrow> lock_xadd result dest)"

section \<open>The IA-32 instruction sequence of the 64-bit compare-and-swap\<close>

text \<open>
  The oversized \<^verbatim>\<open>compareAndSwap\<close> hands three pointers to its inline assembly: \<^verbatim>\<open>dest\<close> in
  \<^verbatim>\<open>esi\<close>, \<^verbatim>\<open>&result\<close> in \<^verbatim>\<open>edi\<close> and \<^verbatim>\<open>&newValue\<close> in \<^verbatim>\<open>edx\<close>. The three objects are
  distinct (two are locals of the call), so an address is the name of its object. A
  register holds an address, a 32-bit value, or the unknown content the surrounding code
  left in it. An object is 8 bytes, little-endian: the low doubleword at offset 0, the high
  one at offset 4.
\<close>

datatype obj = Dest | Result | NewValue

datatype rval = Unknown | Addr obj | Val "32 word"

datatype reg = EAX | EBX | ECX | EDX | ESI | EDI

record x86 =
  regs :: "reg \<Rightarrow> rval"
  stack :: "rval list"
  mem :: "obj \<Rightarrow> 32 word \<times> 32 word"

text \<open>
  The instructions the sequence uses, operands in the order the source writes them (AT&T:
  source first): \<^verbatim>\<open>push r\<close>, \<^verbatim>\<open>pop r\<close>, \<^verbatim>\<open>mov d(b), r\<close>, \<^verbatim>\<open>mov r, d(b)\<close> and
  \<^verbatim>\<open>lock cmpxchg8b (b)\<close>.
\<close>

datatype instr =
    Push reg
  | Pop reg
  | MovLoad nat reg reg
  | MovStore reg nat reg
  | LockCmpxchg8b reg

definition read32 :: "x86 \<Rightarrow> nat \<Rightarrow> reg \<Rightarrow> 32 word option" where
  "read32 s d b =
     (case regs s b of
        Addr ob \<Rightarrow>
          (if d = 0 then Some (fst (mem s ob))
           else if d = 4 then Some (snd (mem s ob))
           else None)
      | _ \<Rightarrow> None)"

definition write32 :: "x86 \<Rightarrow> nat \<Rightarrow> reg \<Rightarrow> 32 word \<Rightarrow> x86 option" where
  "write32 s d b w =
     (case regs s b of
        Addr ob \<Rightarrow>
          (if d = 0 then Some (s\<lparr>mem := (mem s)(ob := (w, snd (mem s ob)))\<rparr>)
           else if d = 4 then Some (s\<lparr>mem := (mem s)(ob := (fst (mem s ob), w))\<rparr>)
           else None)
      | _ \<Rightarrow> None)"

text \<open>
  \<^verbatim>\<open>cmpxchg8b m64\<close>: if \<^verbatim>\<open>edx:eax\<close> equals the quadword at \<^verbatim>\<open>m64\<close>, store \<^verbatim>\<open>ecx:ebx\<close>
  there; otherwise load the quadword into \<^verbatim>\<open>edx:eax\<close>. A step that dereferences a register
  holding no address, moves a register holding no value into memory, or pops an empty stack
  has no successor.
\<close>

fun step :: "instr \<Rightarrow> x86 \<Rightarrow> x86 option" where
  "step (Push r) s = Some (s\<lparr>stack := regs s r # stack s\<rparr>)"
| "step (Pop r) s =
     (case stack s of
        [] \<Rightarrow> None
      | v # st \<Rightarrow> Some (s\<lparr>regs := (regs s)(r := v), stack := st\<rparr>))"
| "step (MovLoad d b r) s =
     (case read32 s d b of
        None \<Rightarrow> None
      | Some w \<Rightarrow> Some (s\<lparr>regs := (regs s)(r := Val w)\<rparr>))"
| "step (MovStore r d b) s =
     (case regs s r of
        Val w \<Rightarrow> write32 s d b w
      | _ \<Rightarrow> None)"
| "step (LockCmpxchg8b b) s =
     (case (regs s b, regs s EAX, regs s EDX) of
        (Addr ob, Val a, Val d) \<Rightarrow>
          (if (a, d) = mem s ob then
             (case (regs s EBX, regs s ECX) of
                (Val bl, Val c) \<Rightarrow> Some (s\<lparr>mem := (mem s)(ob := (bl, c))\<rparr>)
              | _ \<Rightarrow> None)
           else
             Some (s\<lparr>regs := (regs s)(EAX := Val (fst (mem s ob)),
                                      EDX := Val (snd (mem s ob)))\<rparr>))
      | _ \<Rightarrow> None)"

fun exec :: "instr list \<Rightarrow> x86 \<Rightarrow> x86 option" where
  "exec [] s = Some s"
| "exec (i # is) s = (case step i s of None \<Rightarrow> None | Some s' \<Rightarrow> exec is s')"

text \<open>The assembly of \<^verbatim>\<open>compareAndSwap\<close>, line by line.\<close>

definition cmpxchg8b_asm :: "instr list" where
  "cmpxchg8b_asm =
     [Push EAX,
      Push EBX,
      Push ECX,
      Push EDX,
      MovLoad 0 EDX EBX,
      MovLoad 4 EDX ECX,
      MovLoad 0 EDI EAX,
      MovLoad 4 EDI EDX,
      LockCmpxchg8b ESI,
      MovStore EAX 0 EDI,
      MovStore EDX 4 EDI,
      Pop EDX,
      Pop ECX,
      Pop EBX,
      Pop EAX]"

text \<open>A 64-bit value as it lies in memory, (low doubleword, high doubleword), and back.\<close>

definition dwords :: "64 word \<Rightarrow> 32 word \<times> 32 word" where
  "dwords v = (ucast v, ucast (drop_bit 32 v))"

definition qword :: "32 word \<times> 32 word \<Rightarrow> 64 word" where
  "qword p = word_cat (snd p) (fst p)"

section \<open>Word types wider than a pointer\<close>

text \<open>
  \<^verbatim>\<open>AtomicIntrinsics<T>\<close> for \<^verbatim>\<open>sizeof(T) > sizeof(void*)\<close>: the 64-bit word type on a 32-bit
  system. The class has five operations: \<^verbatim>\<open>compareAndSwap\<close>, \<^verbatim>\<open>swap\<close>, \<^verbatim>\<open>load\<close>, \<^verbatim>\<open>store\<close> and
  \<^verbatim>\<open>fetchAndAdd\<close>; it declares no \<^verbatim>\<open>loadRelaxed\<close>. A result is \<open>None\<close> when the assembly has
  no successor state or a retry loop never leaves.
\<close>

definition compareAndSwap_oversized ::
  "arch \<Rightarrow> 64 word \<Rightarrow> 64 word \<Rightarrow> 64 word \<Rightarrow> (64 word \<times> 64 word) option" where
  "compareAndSwap_oversized a dest expected newValue =
     (let result = expected in
      case a of
        ARM \<Rightarrow> Some (sync_val_compare_and_swap dest expected newValue)
      | X86 \<Rightarrow>
          (case exec cmpxchg8b_asm
                  \<lparr>regs = (\<lambda>r. Unknown)(ESI := Addr Dest, EDI := Addr Result,
                                        EDX := Addr NewValue),
                   stack = [],
                   mem = (\<lambda>ob. case ob of
                                  Dest \<Rightarrow> dwords dest
                                | Result \<Rightarrow> dwords result
                                | NewValue \<Rightarrow> dwords newValue)\<rparr> of
             None \<Rightarrow> None
           | Some s \<Rightarrow> Some (qword (mem s Result), qword (mem s Dest))))"

text \<open>
  The retry loop of \<^verbatim>\<open>swap\<close>: read the cell, try to replace what was read, repeat until the
  compare-and-swap reports the value that was read.
\<close>

partial_function (option) swap_oversized ::
  "arch \<Rightarrow> 64 word \<Rightarrow> 64 word \<Rightarrow> (64 word \<times> 64 word) option" where
  "swap_oversized a dest newValue =
     (let expected = dest in
      do {
        (actual, dest) \<leftarrow> compareAndSwap_oversized a dest expected newValue;
        if actual \<noteq> expected then swap_oversized a dest newValue
        else Some (actual, dest)
      })"

declare swap_oversized.simps [code]

definition load_oversized :: "arch \<Rightarrow> 64 word \<Rightarrow> (64 word \<times> 64 word) option" where
  "load_oversized a val = compareAndSwap_oversized a val 0 0"

definition store_oversized :: "arch \<Rightarrow> 64 word \<Rightarrow> 64 word \<Rightarrow> 64 word option" where
  "store_oversized a dest newValue =
     do { (_, dest) \<leftarrow> swap_oversized a dest newValue; Some dest }"

partial_function (option) fetchAndAdd_oversized ::
  "arch \<Rightarrow> 64 word \<Rightarrow> 64 word \<Rightarrow> (64 word \<times> 64 word) option" where
  "fetchAndAdd_oversized a dest increment =
     do {
       (expected, dest) \<leftarrow> load_oversized a dest;
       (actual, dest) \<leftarrow> compareAndSwap_oversized a dest expected (expected + increment);
       if actual \<noteq> expected then fetchAndAdd_oversized a dest increment
       else Some (actual, dest)
     }"

declare fetchAndAdd_oversized.simps [code]

section \<open>The retry loops on a cell that other threads write\<close>

text \<open>
  \<^verbatim>\<open>dest\<close> is a \<^verbatim>\<open>volatile\<close> pointer: between two accesses of one thread the cell can change.
  Here the loops of \<^verbatim>\<open>swap\<close> and \<^verbatim>\<open>fetchAndAdd\<close> run against \<open>others\<close>, where \<open>others t\<close> is
  what the other threads do to the cell before this thread's access number \<open>t\<close>. An
  iteration makes two accesses, the read and the compare-and-swap; the loop hands back the
  number of the next access with its result, so \<open>t + 2\<close> after a call started at \<open>t\<close> means
  one iteration. The plain read \<^verbatim>\<open>expected = *dest\<close> is taken as one observation of the cell.
\<close>

partial_function (option) swap_oversized_contended ::
  "(nat \<Rightarrow> 64 word \<Rightarrow> 64 word) \<Rightarrow> arch \<Rightarrow> nat \<Rightarrow> 64 word \<Rightarrow> 64 word
     \<Rightarrow> (64 word \<times> 64 word \<times> nat) option" where
  "swap_oversized_contended others a t dest newValue =
     (let dest = others t dest;
          expected = dest;
          dest = others (t + 1) dest
      in do {
        (actual, dest) \<leftarrow> compareAndSwap_oversized a dest expected newValue;
        if actual \<noteq> expected then swap_oversized_contended others a (t + 2) dest newValue
        else Some (actual, dest, t + 2)
      })"

declare swap_oversized_contended.simps [code]

partial_function (option) fetchAndAdd_oversized_contended ::
  "(nat \<Rightarrow> 64 word \<Rightarrow> 64 word) \<Rightarrow> arch \<Rightarrow> nat \<Rightarrow> 64 word \<Rightarrow> 64 word
     \<Rightarrow> (64 word \<times> 64 word \<times> nat) option" where
  "fetchAndAdd_oversized_contended others a t dest increment =
     do {
       (expected, dest) \<leftarrow> load_oversized a (others t dest);
       (actual, dest) \<leftarrow>
          compareAndSwap_oversized a (others (t + 1) dest) expected (expected + increment);
       if actual \<noteq> expected
       then fetchAndAdd_oversized_contended others a (t + 2) dest increment
       else Some (actual, dest, t + 2)
     }"

declare fetchAndAdd_oversized_contended.simps [code]

text \<open>
  The cell at the start of iteration \<open>k\<close> (counted from 0) of such a loop started at access
  \<open>t\<close> on a cell holding \<open>v\<close>, when no iteration before it was the last: a compare-and-swap
  that fails, and the load of \<^verbatim>\<open>fetchAndAdd\<close>, leave the cell as they find it, so only the
  other threads have moved it.
\<close>

fun cell_before :: "(nat \<Rightarrow> 64 word \<Rightarrow> 64 word) \<Rightarrow> nat \<Rightarrow> 64 word \<Rightarrow> nat \<Rightarrow> 64 word" where
  "cell_before others t v 0 = v"
| "cell_before others t v (Suc k) =
     cell_before others (t + 2) (others (t + 1) (others t v)) k"

text \<open>
  No other thread succeeds a conflicting update during iteration \<open>k\<close>: the value the
  compare-and-swap of that iteration finds in the cell is the value its read saw. What the
  other threads do to other values, or at other times, is left open.
\<close>

definition undisturbed :: "(nat \<Rightarrow> 64 word \<Rightarrow> 64 word) \<Rightarrow> nat \<Rightarrow> 64 word \<Rightarrow> nat \<Rightarrow> bool" where
  "undisturbed others t v k =
     (let seen = others (t + 2 * k) (cell_before others t v k)
      in others (t + 2 * k + 1) seen = seen)"

section \<open>Callers and variants used in the statements\<close>

text \<open>
  \<^verbatim>\<open>fetchAndAdd\<close> of the native width with the declaration \<^verbatim>\<open>T result = increment;\<close> replaced
  by \<^verbatim>\<open>T result;\<close>: the local starts with whatever its storage holds, \<open>junk\<close>.
\<close>

definition fetchAndAdd_uninitialized ::
  "arch \<Rightarrow> 'a::len word \<Rightarrow> 'a word \<Rightarrow> 'a word \<Rightarrow> 'a word \<times> 'a word" where
  "fetchAndAdd_uninitialized a junk dest increment =
     (let result = junk in
      case a of
        ARM \<Rightarrow> sync_fetch_and_add dest increment
      | X86 \<Rightarrow> lock_xadd result dest)"

text \<open>\<open>k\<close> calls of a load on one cell, one after the other: the results in call order.\<close>

fun load_repeated :: "arch \<Rightarrow> nat \<Rightarrow> 'a::len word \<Rightarrow> 'a word list \<times> 'a word" where
  "load_repeated a 0 val = ([], val)"
| "load_repeated a (Suc k) val =
     (let (r, val) = load a val;
          (rs, val) = load_repeated a k val
      in (r # rs, val))"

fun loadRelaxed_repeated :: "nat \<Rightarrow> 'a::len word \<Rightarrow> 'a word list \<times> 'a word" where
  "loadRelaxed_repeated 0 val = ([], val)"
| "loadRelaxed_repeated (Suc k) val =
     (let (r, val) = loadRelaxed val;
          (rs, val) = loadRelaxed_repeated k val
      in (r # rs, val))"

fun load_oversized_repeated ::
  "arch \<Rightarrow> nat \<Rightarrow> 64 word \<Rightarrow> (64 word list \<times> 64 word) option" where
  "load_oversized_repeated a 0 val = Some ([], val)"
| "load_oversized_repeated a (Suc k) val =
     do {
       (r, val) \<leftarrow> load_oversized a val;
       (rs, val) \<leftarrow> load_oversized_repeated a k val;
       Some (r # rs, val)
     }"

section \<open>Threads that store to and load from one cell\<close>

text \<open>
  Several threads share one cell; each makes a sequence of \<^verbatim>\<open>store\<close> and \<^verbatim>\<open>load\<close> calls. A
  schedule names, step by step, the thread that makes its next access to the cell. The
  accesses are those the header writes: for the native width a \<^verbatim>\<open>store\<close> is one aligned
  write and a \<^verbatim>\<open>load\<close> one aligned read between their fences; for the oversized class a
  \<^verbatim>\<open>load\<close> is one compare-and-swap, and a \<^verbatim>\<open>store\<close> is the loop of \<^verbatim>\<open>swap\<close>, whose plain read
  \<^verbatim>\<open>expected = *dest\<close> of a 64-bit word on a 32-bit machine is two doubleword reads, in
  either order, followed by one compare-and-swap. Other threads run between any two
  accesses, the two halves of that read included. \<open>stored\<close> lists the values of the stores
  that have completed, in the order of their completion.
\<close>

datatype 'w call = Store 'w | Load

record 'w thread =
  calls :: "'w call list"
  returned :: "'w list"

record ('w, 't) system =
  shared :: 'w
  threads :: "'t list"
  stored :: "'w list"

definition native_step ::
  "arch \<Rightarrow> nat \<Rightarrow> ('a::len word, 'a word thread) system
     \<Rightarrow> ('a word, 'a word thread) system" where
  "native_step a i s =
     (if i < length (threads s) then
        (let th = threads s ! i in
         case calls th of
           [] \<Rightarrow> s
         | Store newValue # cs \<Rightarrow>
             s\<lparr>shared := store a (shared s) newValue,
               threads := (threads s)[i := th\<lparr>calls := cs\<rparr>],
               stored := stored s @ [newValue]\<rparr>
         | Load # cs \<Rightarrow>
             (let (result, val) = load a (shared s)
              in s\<lparr>shared := val,
                   threads := (threads s)
                     [i := th\<lparr>calls := cs, returned := returned th @ [result]\<rparr>]\<rparr>))
      else s)"

definition native_run ::
  "arch \<Rightarrow> nat list \<Rightarrow> ('a::len word, 'a word thread) system
     \<Rightarrow> ('a word, 'a word thread) system" where
  "native_run a sched s = foldl (\<lambda>s i. native_step a i s) s sched"

definition native_start ::
  "'a::len word \<Rightarrow> 'a word call list list \<Rightarrow> ('a word, 'a word thread) system" where
  "native_start init progs =
     \<lparr>shared = init, threads = map (\<lambda>cs. \<lparr>calls = cs, returned = []\<rparr>) progs, stored = []\<rparr>"

text \<open>
  How far an oversized \<^verbatim>\<open>store\<close> has come in the current iteration of its loop: nothing
  read, one half of \<^verbatim>\<open>expected\<close> read, or \<^verbatim>\<open>expected\<close> read and the compare-and-swap due.
\<close>

datatype progress = Idle | HaveLo "32 word" | HaveHi "32 word" | Have "64 word"

record othread = "64 word thread" +
  progress :: progress

text \<open>
  A step of the schedule is the thread's number and, for the step that begins a read of
  \<^verbatim>\<open>expected\<close>, whether the low half is read first.
\<close>

definition oversized_step ::
  "arch \<Rightarrow> nat \<times> bool \<Rightarrow> (64 word, othread) system
     \<Rightarrow> (64 word, othread) system option" where
  "oversized_step a x s =
     (let i = fst x; low_first = snd x in
      if i < length (threads s) then
        (let th = threads s ! i in
         case calls th of
           [] \<Rightarrow> Some s
         | Load # cs \<Rightarrow>
             do {
               (result, val) \<leftarrow> load_oversized a (shared s);
               Some (s\<lparr>shared := val,
                       threads := (threads s)
                         [i := th\<lparr>calls := cs, returned := returned th @ [result]\<rparr>]\<rparr>)
             }
         | Store newValue # cs \<Rightarrow>
             (case progress th of
                Idle \<Rightarrow>
                  Some (s\<lparr>threads := (threads s)[i := th\<lparr>progress :=
                     (if low_first then HaveLo (fst (dwords (shared s)))
                      else HaveHi (snd (dwords (shared s))))\<rparr>]\<rparr>)
              | HaveLo lo \<Rightarrow>
                  Some (s\<lparr>threads := (threads s)[i := th\<lparr>progress :=
                     Have (qword (lo, snd (dwords (shared s))))\<rparr>]\<rparr>)
              | HaveHi hi \<Rightarrow>
                  Some (s\<lparr>threads := (threads s)[i := th\<lparr>progress :=
                     Have (qword (fst (dwords (shared s)), hi))\<rparr>]\<rparr>)
              | Have expected \<Rightarrow>
                  do {
                    (actual, dest) \<leftarrow>
                       compareAndSwap_oversized a (shared s) expected newValue;
                    if actual \<noteq> expected
                    then Some (s\<lparr>shared := dest,
                                 threads := (threads s)[i := th\<lparr>progress := Idle\<rparr>]\<rparr>)
                    else Some (s\<lparr>shared := dest,
                                 threads := (threads s)
                                   [i := th\<lparr>calls := cs, progress := Idle\<rparr>],
                                 stored := stored s @ [newValue]\<rparr>)
                  }))
      else Some s)"

fun oversized_run ::
  "arch \<Rightarrow> (nat \<times> bool) list \<Rightarrow> (64 word, othread) system
     \<Rightarrow> (64 word, othread) system option" where
  "oversized_run a [] s = Some s"
| "oversized_run a (x # sched) s =
     do { s \<leftarrow> oversized_step a x s; oversized_run a sched s }"

definition oversized_start ::
  "64 word \<Rightarrow> 64 word call list list \<Rightarrow> (64 word, othread) system" where
  "oversized_start init progs =
     \<lparr>shared = init,
      threads = map (\<lambda>cs. \<lparr>calls = cs, returned = [], progress = Idle\<rparr>) progs,
      stored = []\<rparr>"

text \<open>The values a sequence of calls stores.\<close>

fun stores :: "'w call list \<Rightarrow> 'w list" where
  "stores [] = []"
| "stores (Store n # cs) = n # stores cs"
| "stores (Load # cs) = stores cs"

text \<open>
  The cell, and every value a load has returned, is the initial value or the value of a
  completed store.
\<close>

definition untorn :: "'w \<Rightarrow> ('w, ('w, 'z) thread_scheme) system \<Rightarrow> bool" where
  "untorn init s =
     (shared s \<in> insert init (set (stored s)) \<and>
      (\<Union>th \<in> set (threads s). set (returned th)) \<subseteq> insert init (set (stored s)))"

text \<open>
  Every completed store, and every store still to be made, is a store of one of the
  threads' programs.
\<close>

definition issued :: "'w call list list \<Rightarrow> ('w, ('w, 'z) thread_scheme) system \<Rightarrow> bool" where
  "issued progs s =
     (set (stored s) \<union> (\<Union>th \<in> set (threads s). set (stores (calls th)))
        \<subseteq> (\<Union>cs \<in> set progs. set (stores cs)))"

section \<open>The operations as functions of the cell\<close>

lemma compareAndSwap_eq:
  "compareAndSwap a v e n = (if v = e then (e, n) else (v, v))"
  by (cases a) (auto simp: compareAndSwap_def sync_val_compare_and_swap_def lock_cmpxchg_def)

lemma swap_X86_eq: "swap X86 v n = (v, n)"
  by (simp add: swap_def xchg_def)

lemma swap_ARM_eq: "swap ARM v n = (v, 0)"
  by (simp add: swap_def sync_lock_test_and_set_def sync_lock_release_def)

lemma load_eq: "load a v = (v, v)"
  by (cases a) (simp_all add: load_def sync_synchronize_def mfence_def)

lemma store_eq: "store a v n = n"
  by (cases a) (simp_all add: store_def sync_synchronize_def mfence_def)

lemma fetchAndAdd_eq: "fetchAndAdd a v i = (v, v + i)"
  by (cases a) (simp_all add: fetchAndAdd_def sync_fetch_and_add_def lock_xadd_def)

text \<open>The two doublewords of a quadword determine it.\<close>

lemma qword_dwords: "qword (dwords v) = v"
  unfolding qword_def dwords_def
  by (rule bit_word_eqI) (auto simp add: bit_simps)

lemma dwords_inj: "(dwords v = dwords e) = (v = e)"
  by (metis qword_dwords)

text \<open>
  The assembly, started with the three pointers in place and anything in the other
  registers and on the stack: registers and stack come back as they were, and memory holds
  the outcome of the compare-and-exchange with \<^verbatim>\<open>result\<close> as the comparand.
\<close>

lemma exec_cmpxchg8b_asm:
  "exec cmpxchg8b_asm
     \<lparr>regs = rs(ESI := Addr Dest, EDI := Addr Result, EDX := Addr NewValue),
      stack = st, mem = m\<rparr> =
   Some \<lparr>regs = rs(ESI := Addr Dest, EDI := Addr Result, EDX := Addr NewValue),
         stack = st,
         mem = (if m Result = m Dest then m(Dest := m NewValue) else m(Result := m Dest))\<rparr>"
  by (auto simp: cmpxchg8b_asm_def read32_def write32_def fun_eq_iff split: obj.splits)

lemma compareAndSwap_oversized_eq:
  "compareAndSwap_oversized a v e n = Some (if v = e then (e, n) else (v, v))"
proof (cases a)
  case ARM
  then show ?thesis
    by (auto simp: compareAndSwap_oversized_def sync_val_compare_and_swap_def)
next
  case X86
  then show ?thesis
    by (simp add: compareAndSwap_oversized_def exec_cmpxchg8b_asm qword_dwords dwords_inj)
qed

lemma swap_oversized_eq: "swap_oversized a v n = Some (v, n)"
  by (subst swap_oversized.simps) (simp add: compareAndSwap_oversized_eq)

lemma load_oversized_eq: "load_oversized a v = Some (v, v)"
  by (simp add: load_oversized_def compareAndSwap_oversized_eq)

lemma store_oversized_eq: "store_oversized a v n = Some n"
  by (simp add: store_oversized_def swap_oversized_eq)

lemma fetchAndAdd_oversized_eq: "fetchAndAdd_oversized a v i = Some (v, v + i)"
  by (subst fetchAndAdd_oversized.simps)
     (simp add: load_oversized_eq compareAndSwap_oversized_eq)

section \<open>Compare-and-swap\<close>

text \<open>
  C1. For every cell value \<open>v\<close>, expected value \<open>e\<close> and new value \<open>n\<close>,
  \<^verbatim>\<open>compareAndSwap(cell, e, n)\<close> sets the cell to \<open>n\<close> and returns \<open>e\<close> if and only if \<open>v\<close>
  equals \<open>e\<close>; otherwise the cell is left unchanged and the call returns \<open>v\<close>. This holds
  for the implementation of the native width and for the oversized one, on both targets.
\<close>

theorem compareAndSwap_contract:
  "compareAndSwap a v e n = (if v = e then (e, n) else (v, v)) \<and>
   (compareAndSwap a v e n = (e, n)) = (v = e) \<and>
   compareAndSwap_oversized a' v' e' n' = Some (if v' = e' then (e', n') else (v', v')) \<and>
   (compareAndSwap_oversized a' v' e' n' = Some (e', n')) = (v' = e')"
  by (simp add: compareAndSwap_eq compareAndSwap_oversized_eq)

text \<open>
  The second concrete scenario of the specification: a cell holding 5 takes
  \<^verbatim>\<open>compareAndSwap(cell, 5, 7)\<close>, then rejects \<^verbatim>\<open>compareAndSwap(cell, 5, 9)\<close>.
\<close>

lemma compareAndSwap_scenario:
  "compareAndSwap a (5 :: 32 word) 5 7 = (5, 7) \<and> compareAndSwap a (7 :: 32 word) 5 9 = (7, 7)"
  by (simp add: compareAndSwap_eq)

section \<open>Load of an oversized word\<close>

text \<open>
  C2. For every cell value \<open>v\<close>, the oversized \<^verbatim>\<open>load(cell)\<close>, which is
  \<^verbatim>\<open>compareAndSwap(cell, 0, 0)\<close>, returns \<open>v\<close> and leaves the cell's value equal to \<open>v\<close>; so
  it does at \<open>v = 0\<close>, where the compare-and-swap succeeds and writes the same zero.
\<close>

theorem load_oversized_zero_cas:
  "load_oversized a v = compareAndSwap_oversized a v 0 0 \<and>
   load_oversized a v = Some (v, v) \<and>
   load_oversized a 0 = Some (0, 0)"
  by (simp add: load_oversized_def compareAndSwap_oversized_eq)

section \<open>Swap\<close>

text \<open>
  C3. For every cell value \<open>v\<close> and new value \<open>n\<close>, \<^verbatim>\<open>swap(cell, n)\<close> returns \<open>v\<close> and leaves
  the cell's value equal to \<open>n\<close>, in the implementation of the native width (its ARM branch
  included) and in the oversized one. The x86 branch and the oversized loop do so
  (\<open>swap_X86_eq\<close>, \<open>swap_oversized_eq\<close>). The ARM branch of the native width calls
  \<^verbatim>\<open>__sync_lock_release(dest)\<close> after \<^verbatim>\<open>__sync_lock_test_and_set(dest, newValue)\<close>, and the
  release writes 0 over the value just stored: on a cell holding 3, \<^verbatim>\<open>swap(cell, 10)\<close>
  returns 3 and leaves 0, not 10.
\<close>

theorem swap_ARM_leaves_zero:
  "swap ARM (3 :: 32 word) 10 = (3, 0)"
  by (simp add: swap_def sync_lock_test_and_set_def sync_lock_release_def)

section \<open>Fetch-and-add\<close>

text \<open>
  C4. For every cell value \<open>v\<close> and increment \<open>i\<close>, \<^verbatim>\<open>fetchAndAdd(cell, i)\<close> returns \<open>v\<close>, the
  value before the addition, and leaves the cell's value equal to \<open>v + i\<close> in the
  arithmetic of the word type, in the implementation of the native width and in the
  oversized one.
\<close>

theorem fetchAndAdd_contract:
  "fetchAndAdd a v i = (v, v + i) \<and>
   fetchAndAdd_oversized a' v' i' = Some (v', v' + i')"
  by (simp add: fetchAndAdd_eq fetchAndAdd_oversized_eq)

text \<open>The addition is the word type's: an 8-bit cell holding 255 wraps to 0.\<close>

lemma fetchAndAdd_wraps: "fetchAndAdd a (255 :: 8 word) 1 = (255, 0)"
  by (simp add: fetchAndAdd_eq)

section \<open>The two strategies side by side\<close>

text \<open>
  Where the two classes agree: on both targets \<^verbatim>\<open>compareAndSwap\<close>, \<^verbatim>\<open>load\<close>, \<^verbatim>\<open>store\<close> and
  \<^verbatim>\<open>fetchAndAdd\<close> of the oversized class return what those of the native width return on a
  64-bit word and leave the same cell; \<^verbatim>\<open>swap\<close> does on x86.
\<close>

lemma strategies_agree:
  "compareAndSwap_oversized a v e n = Some (compareAndSwap a v e n) \<and>
   load_oversized a v = Some (load a v) \<and>
   store_oversized a v n = Some (store a v n) \<and>
   fetchAndAdd_oversized a v i = Some (fetchAndAdd a v i) \<and>
   swap_oversized X86 v n = Some (swap X86 v n)"
  by (simp add: compareAndSwap_oversized_eq compareAndSwap_eq load_oversized_eq load_eq
      store_oversized_eq store_eq fetchAndAdd_oversized_eq fetchAndAdd_eq
      swap_oversized_eq swap_X86_eq)

text \<open>
  C5. The two strategies implement the same six operations with the same observable
  behaviour: for every operation and every input, run without interference, the oversized
  implementation returns the same value and leaves the cell with the same value as the one
  of the native width. On ARM the two \<^verbatim>\<open>swap\<close> bodies differ: on a cell holding 3,
  \<^verbatim>\<open>swap(cell, 10)\<close> of the native width leaves 0 and the oversized one leaves 10. The
  oversized class also declares no \<^verbatim>\<open>loadRelaxed\<close>.
\<close>

theorem swap_ARM_strategies_differ:
  "swap ARM (3 :: 32 word) 10 = (3, 0) \<and>
   swap ARM (3 :: 64 word) 10 = (3, 0) \<and>
   swap_oversized ARM 3 10 = Some (3, 10)"
  by (simp add: swap_ARM_eq swap_oversized_eq)

section \<open>Store, then load, of an oversized word\<close>

text \<open>
  C6. On the oversized strategy, for every initial cell value \<open>V1\<close> and every value \<open>V2\<close>,
  \<^verbatim>\<open>store(cell, V2)\<close> followed by \<^verbatim>\<open>load(cell)\<close>, with no other writer, returns exactly
  \<open>V2\<close>; \<^verbatim>\<open>store\<close> is \<^verbatim>\<open>swap\<close> with the returned previous value dropped.
\<close>

theorem store_then_load_oversized:
  "do { cell \<leftarrow> store_oversized a V1 V2; load_oversized a cell } = Some (V2, V2) \<and>
   store_oversized a V1 V2 = map_option snd (swap_oversized a V1 V2)"
  by (simp add: store_oversized_eq load_oversized_eq)
     (simp add: store_oversized_def swap_oversized_eq)

section \<open>Loads leave the cell alone\<close>

lemma load_repeated_eq: "load_repeated a k v = (replicate k v, v)"
  by (induction k) (simp_all add: load_eq)

lemma loadRelaxed_repeated_eq: "loadRelaxed_repeated k v = (replicate k v, v)"
  by (induction k) (simp_all add: loadRelaxed_def)

lemma load_oversized_repeated_eq: "load_oversized_repeated a k v = Some (replicate k v, v)"
  by (induction k) (simp_all add: load_oversized_eq)

text \<open>
  C10. For every cell value \<open>v\<close>, \<^verbatim>\<open>load(cell)\<close> and \<^verbatim>\<open>loadRelaxed(cell)\<close> leave the cell's
  value equal to \<open>v\<close>, for the native width and for the oversized \<^verbatim>\<open>load\<close>, whose
  compare-and-swap writes when \<open>v\<close> is zero and writes the same zero; so any number of
  loads in a row, with no write between them, all return \<open>v\<close>.
\<close>

theorem loads_leave_cell:
  "load a v = (v, v) \<and>
   loadRelaxed v = (v, v) \<and>
   load_oversized a' v' = Some (v', v') \<and>
   load_oversized a' 0 = Some (0, 0) \<and>
   load_repeated a k v = (replicate k v, v) \<and>
   loadRelaxed_repeated k v = (replicate k v, v) \<and>
   load_oversized_repeated a' k v' = Some (replicate k v', v')"
  by (simp add: load_eq loadRelaxed_def load_oversized_eq load_repeated_eq
      loadRelaxed_repeated_eq load_oversized_repeated_eq)

section \<open>The initialiser of the result in fetch-and-add\<close>

text \<open>
  C8, as the specification has it: in \<^verbatim>\<open>fetchAndAdd\<close> of the native width the initialiser
  \<^verbatim>\<open>T result = increment\<close> has no effect, so without it the function returns the same
  value and leaves the same cell. On x86 this fails: \<^verbatim>\<open>result\<close> is the source operand of
  \<^verbatim>\<open>lock xadd\<close>, the only way the increment reaches the instruction. With a local that
  happens to hold 0, a cell holding 5 and increment 1, the cell stays 5 instead of
  becoming 6.
\<close>

theorem fetchAndAdd_initializer_counterexample:
  "fetchAndAdd_uninitialized X86 0 (5 :: 32 word) 1 = (5, 5) \<and>
   fetchAndAdd X86 (5 :: 32 word) 1 = (5, 6) \<and>
   fetchAndAdd_uninitialized X86 0 (5 :: 32 word) 1 \<noteq> fetchAndAdd X86 5 1"
  by (simp add: fetchAndAdd_uninitialized_def fetchAndAdd_def lock_xadd_def)

text \<open>
  C8, amended. On the ARM branch the initialiser has no effect: the built-in's return value
  overwrites \<^verbatim>\<open>result\<close>, and whatever the local held, the function returns the same value
  and leaves the same cell. On the x86 branch the initialiser carries the increment into
  \<^verbatim>\<open>lock xadd\<close>: started with \<open>junk\<close> in the local, the function returns the old value
  \<open>v\<close> and leaves \<open>junk + v\<close>, which is the cell \<^verbatim>\<open>fetchAndAdd\<close> leaves exactly when \<open>junk\<close> is
  the increment.
\<close>

theorem fetchAndAdd_initializer:
  "fetchAndAdd_uninitialized ARM junk v i = fetchAndAdd ARM v i \<and>
   fetchAndAdd_uninitialized X86 junk v i = (v, junk + v) \<and>
   fetchAndAdd X86 v i = fetchAndAdd_uninitialized X86 i v i \<and>
   (fetchAndAdd_uninitialized X86 junk v i = fetchAndAdd X86 v i) = (junk = i)"
  by (simp add: fetchAndAdd_uninitialized_def fetchAndAdd_def lock_xadd_def
      sync_fetch_and_add_def)

section \<open>Totality and the retry loops\<close>

text \<open>
  On a cell no other thread touches, the loops agree with the plain ones and leave after
  one iteration (two accesses).
\<close>

lemma swap_oversized_contended_alone:
  "swap_oversized_contended (\<lambda>t c. c) a t v n = Some (v, n, t + 2)"
  by (subst swap_oversized_contended.simps) (simp add: compareAndSwap_oversized_eq)

lemma fetchAndAdd_oversized_contended_alone:
  "fetchAndAdd_oversized_contended (\<lambda>t c. c) a t v i = Some (v, v + i, t + 2)"
  by (subst fetchAndAdd_oversized_contended.simps)
     (simp add: compareAndSwap_oversized_eq load_oversized_eq)

text \<open>
  One iteration: if the compare-and-swap finds the value the read saw, the loop returns
  that value; if not, the loop goes on from the cell as found.
\<close>

lemma swap_oversized_contended_quiet:
  "others (t + 1) (others t v) = others t v \<Longrightarrow>
   swap_oversized_contended others a t v n = Some (others t v, n, t + 2)"
  by (subst swap_oversized_contended.simps) (simp add: compareAndSwap_oversized_eq)

lemma swap_oversized_contended_retry:
  "others (t + 1) (others t v) \<noteq> others t v \<Longrightarrow>
   swap_oversized_contended others a t v n =
     swap_oversized_contended others a (t + 2) (others (t + 1) (others t v)) n"
  by (subst swap_oversized_contended.simps) (simp add: compareAndSwap_oversized_eq)

lemma fetchAndAdd_oversized_contended_quiet:
  "others (t + 1) (others t v) = others t v \<Longrightarrow>
   fetchAndAdd_oversized_contended others a t v i =
     Some (others t v, others t v + i, t + 2)"
  by (subst fetchAndAdd_oversized_contended.simps)
     (simp add: compareAndSwap_oversized_eq load_oversized_eq)

lemma fetchAndAdd_oversized_contended_retry:
  "others (t + 1) (others t v) \<noteq> others t v \<Longrightarrow>
   fetchAndAdd_oversized_contended others a t v i =
     fetchAndAdd_oversized_contended others a (t + 2) (others (t + 1) (others t v)) i"
  by (subst fetchAndAdd_oversized_contended.simps)
     (simp add: compareAndSwap_oversized_eq load_oversized_eq)

lemma undisturbed_0:
  "undisturbed others t v 0 = (others (t + 1) (others t v) = others t v)"
  by (simp add: undisturbed_def Let_def)

lemma undisturbed_Suc:
  "undisturbed others t v (Suc k) =
     undisturbed others (t + 2) (others (t + 1) (others t v)) k"
  by (simp add: undisturbed_def add.commute add.left_commute)

text \<open>
  If no other thread succeeds a conflicting update during iteration \<open>k\<close>, the loop has
  returned by the end of that iteration.
\<close>

lemma swap_oversized_contended_terminates:
  "undisturbed others t v k \<Longrightarrow>
   \<exists>r c t'. swap_oversized_contended others a t v n = Some (r, c, t') \<and>
            t' \<le> t + 2 * (k + 1)"
proof (induction k arbitrary: t v)
  case 0
  then show ?case by (simp add: swap_oversized_contended_quiet undisturbed_0)
next
  case (Suc k)
  let ?found = "others (t + 1) (others t v)"
  show ?case
  proof (cases "?found = others t v")
    case True
    then show ?thesis by (simp add: swap_oversized_contended_quiet)
  next
    case False
    from Suc.prems have "undisturbed others (t + 2) ?found k"
      by (simp only: undisturbed_Suc)
    from Suc.IH [OF this] obtain r c t' where
      "swap_oversized_contended others a (t + 2) ?found n = Some (r, c, t')"
      "t' \<le> t + 2 + 2 * (k + 1)" by blast
    with False show ?thesis by (simp add: swap_oversized_contended_retry)
  qed
qed

lemma fetchAndAdd_oversized_contended_terminates:
  "undisturbed others t v k \<Longrightarrow>
   \<exists>r c t'. fetchAndAdd_oversized_contended others a t v i = Some (r, c, t') \<and>
            t' \<le> t + 2 * (k + 1)"
proof (induction k arbitrary: t v)
  case 0
  then show ?case by (simp add: fetchAndAdd_oversized_contended_quiet undisturbed_0)
next
  case (Suc k)
  let ?found = "others (t + 1) (others t v)"
  show ?case
  proof (cases "?found = others t v")
    case True
    then show ?thesis by (simp add: fetchAndAdd_oversized_contended_quiet)
  next
    case False
    from Suc.prems have "undisturbed others (t + 2) ?found k"
      by (simp only: undisturbed_Suc)
    from Suc.IH [OF this] obtain r c t' where
      "fetchAndAdd_oversized_contended others a (t + 2) ?found i = Some (r, c, t')"
      "t' \<le> t + 2 + 2 * (k + 1)" by blast
    with False show ?thesis by (simp add: fetchAndAdd_oversized_contended_retry)
  qed
qed

text \<open>
  The loop leaves in the first such iteration, with the value its read saw there: the trace
  \<open>cell_before\<close> is the cell the loop works on.
\<close>

lemma swap_oversized_contended_first:
  "\<forall>j<k. \<not> undisturbed others t v j \<Longrightarrow> undisturbed others t v k \<Longrightarrow>
   swap_oversized_contended others a t v n =
     Some (others (t + 2 * k) (cell_before others t v k), n, t + 2 * (k + 1))"
proof (induction k arbitrary: t v)
  case 0
  then show ?case by (simp add: swap_oversized_contended_quiet undisturbed_0)
next
  case (Suc k)
  let ?found = "others (t + 1) (others t v)"
  have first: "?found \<noteq> others t v"
    using Suc.prems(1) [rule_format, of 0] by (simp add: undisturbed_0)
  have before: "\<forall>j<k. \<not> undisturbed others (t + 2) ?found j"
    using Suc.prems(1) by (auto simp only: undisturbed_Suc [symmetric])
  have now: "undisturbed others (t + 2) ?found k"
    using Suc.prems(2) by (simp only: undisturbed_Suc)
  from Suc.IH [OF before now] first show ?case
    by (simp add: swap_oversized_contended_retry add.commute add.left_commute)
qed

lemma fetchAndAdd_oversized_contended_first:
  "\<forall>j<k. \<not> undisturbed others t v j \<Longrightarrow> undisturbed others t v k \<Longrightarrow>
   fetchAndAdd_oversized_contended others a t v i =
     Some (others (t + 2 * k) (cell_before others t v k),
           others (t + 2 * k) (cell_before others t v k) + i, t + 2 * (k + 1))"
proof (induction k arbitrary: t v)
  case 0
  then show ?case by (simp add: fetchAndAdd_oversized_contended_quiet undisturbed_0)
next
  case (Suc k)
  let ?found = "others (t + 1) (others t v)"
  have first: "?found \<noteq> others t v"
    using Suc.prems(1) [rule_format, of 0] by (simp add: undisturbed_0)
  have before: "\<forall>j<k. \<not> undisturbed others (t + 2) ?found j"
    using Suc.prems(1) by (auto simp only: undisturbed_Suc [symmetric])
  have now: "undisturbed others (t + 2) ?found k"
    using Suc.prems(2) by (simp only: undisturbed_Suc)
  from Suc.IH [OF before now] first show ?case
    by (simp add: fetchAndAdd_oversized_contended_retry add.commute add.left_commute)
qed

text \<open>
  C7. Every operation of both strategies is a total function and reports no error: those of
  the native width return plain values, and those of the oversized class, whose results
  could be \<open>None\<close>, never are. The retry loops of the oversized \<^verbatim>\<open>swap\<close> and \<^verbatim>\<open>fetchAndAdd\<close>
  leave after exactly one iteration when nothing interferes, and under interference they
  have returned by the end of the first iteration during which no other thread succeeds a
  conflicting update: the compare-and-swap finds the value the read saw.
\<close>

theorem operations_total:
  "(\<exists>r. compareAndSwap_oversized a v e n = Some r) \<and>
   (\<exists>r. swap_oversized a v n = Some r) \<and>
   (\<exists>r. load_oversized a v = Some r) \<and>
   (\<exists>r. store_oversized a v n = Some r) \<and>
   (\<exists>r. fetchAndAdd_oversized a v i = Some r) \<and>
   swap_oversized_contended (\<lambda>t c. c) a t v n = Some (v, n, t + 2) \<and>
   fetchAndAdd_oversized_contended (\<lambda>t c. c) a t v i = Some (v, v + i, t + 2) \<and>
   (undisturbed others t v k \<longrightarrow>
      (\<exists>r c t'. swap_oversized_contended others a t v n = Some (r, c, t') \<and>
                t' \<le> t + 2 * (k + 1)) \<and>
      (\<exists>r c t'. fetchAndAdd_oversized_contended others a t v i = Some (r, c, t') \<and>
                t' \<le> t + 2 * (k + 1)))"
proof -
  have "\<exists>r. compareAndSwap_oversized a v e n = Some r"
    by (simp add: compareAndSwap_oversized_eq)
  moreover have "\<exists>r. swap_oversized a v n = Some r"
    by (simp add: swap_oversized_eq)
  moreover have "\<exists>r. load_oversized a v = Some r"
    by (simp add: load_oversized_eq)
  moreover have "\<exists>r. store_oversized a v n = Some r"
    by (simp add: store_oversized_eq)
  moreover have "\<exists>r. fetchAndAdd_oversized a v i = Some r"
    by (simp add: fetchAndAdd_oversized_eq)
  moreover note swap_oversized_contended_alone [of a t v n]
    fetchAndAdd_oversized_contended_alone [of a t v i]
  moreover have "undisturbed others t v k \<longrightarrow>
      (\<exists>r c t'. swap_oversized_contended others a t v n = Some (r, c, t') \<and>
                t' \<le> t + 2 * (k + 1)) \<and>
      (\<exists>r c t'. fetchAndAdd_oversized_contended others a t v i = Some (r, c, t') \<and>
                t' \<le> t + 2 * (k + 1))"
    using swap_oversized_contended_terminates [of others t v k a n]
      fetchAndAdd_oversized_contended_terminates [of others t v k a i]
    by blast
  ultimately show ?thesis by blast
qed

text \<open>
  The hypothesis at work. First, another thread adds 1 to a cell holding 5 between the read
  and the compare-and-swap of the first iteration and is silent afterwards: the first
  iteration is disturbed, the second is not, and both loops return by the end of the
  second. Then, other threads that turn every 7 into 8, which is not the identity: on a cell
  holding 5 the first iteration is undisturbed and the loop returns at its end.
\<close>

theorem operations_total_witness:
  "\<not> undisturbed (\<lambda>t c. if t = 1 then c + 1 else c) 0 5 0 \<and>
   undisturbed (\<lambda>t c. if t = 1 then c + 1 else c) 0 5 1 \<and>
   (\<exists>r c t'. swap_oversized_contended (\<lambda>t c. if t = 1 then c + 1 else c) X86 0 5 9
                = Some (r, c, t') \<and> t' \<le> 4) \<and>
   (\<exists>r c t'. fetchAndAdd_oversized_contended (\<lambda>t c. if t = 1 then c + 1 else c) X86 0 5 2
                = Some (r, c, t') \<and> t' \<le> 4) \<and>
   undisturbed (\<lambda>t c. if c = 7 then 8 else c) 0 5 0 \<and>
   (\<exists>r c t'. swap_oversized_contended (\<lambda>t c. if c = 7 then 8 else c) ARM 0 5 9
                = Some (r, c, t') \<and> t' \<le> 2)"
proof -
  let ?bump = "\<lambda>(t :: nat) (c :: 64 word). if t = 1 then c + 1 else c"
  let ?seven = "\<lambda>(t :: nat) (c :: 64 word). if c = 7 then 8 else c"
  have disturbed: "\<not> undisturbed ?bump 0 5 0"
    by (simp add: undisturbed_def)
  have later: "undisturbed ?bump 0 5 1"
    by (simp add: undisturbed_def)
  have seven: "undisturbed ?seven 0 5 0"
    by (simp add: undisturbed_def)
  have "(\<exists>r c t'. swap_oversized_contended ?bump X86 0 5 9 = Some (r, c, t') \<and> t' \<le> 4) \<and>
        (\<exists>r c t'. fetchAndAdd_oversized_contended ?bump X86 0 5 2 = Some (r, c, t') \<and> t' \<le> 4)"
    using later
      operations_total [where others = ?bump and t = 0 and k = 1 and a = X86 and v = 5
        and n = 9 and i = 2 and e = 0]
    by simp
  moreover
  have "\<exists>r c t'. swap_oversized_contended ?seven ARM 0 5 9 = Some (r, c, t') \<and> t' \<le> 2"
    using seven
      operations_total [where others = ?seven and t = 0 and k = 0 and a = ARM and v = 5
        and n = 9 and i = 0 and e = 0]
    by (simp add: numeral_2_eq_2)
  ultimately show ?thesis
    using disturbed later seven by blast
qed

section \<open>Concurrent stores and loads\<close>

lemma in_set_updateD: "x \<in> set (xs[i := y]) \<Longrightarrow> x = y \<or> x \<in> set xs"
  using set_update_subset_insert [of xs i y] by auto

lemma untorn_iff:
  "untorn init s =
     (shared s \<in> insert init (set (stored s)) \<and>
      (\<forall>th \<in> set (threads s). \<forall>x \<in> set (returned th).
          x \<in> insert init (set (stored s))))"
  by (auto simp: untorn_def)

lemma issued_iff:
  "issued progs s =
     ((\<forall>x \<in> set (stored s). \<exists>cs \<in> set progs. x \<in> set (stores cs)) \<and>
      (\<forall>th \<in> set (threads s). \<forall>x \<in> set (stores (calls th)).
          \<exists>cs \<in> set progs. x \<in> set (stores cs)))"
  by (auto simp: issued_def)

lemma untorn_nth:
  "untorn init s \<Longrightarrow> i < length (threads s) \<Longrightarrow>
   x \<in> set (returned (threads s ! i)) \<Longrightarrow> x \<in> insert init (set (stored s))"
  by (metis untorn_iff nth_mem)

lemma issued_nth:
  "issued progs s \<Longrightarrow> i < length (threads s) \<Longrightarrow>
   x \<in> set (stores (calls (threads s ! i))) \<Longrightarrow> \<exists>cs \<in> set progs. x \<in> set (stores cs)"
  by (metis issued_iff nth_mem)

text \<open>Before the first step nothing is stored and nothing returned.\<close>

lemma native_start_untorn: "untorn init (native_start init progs)"
  by (simp add: untorn_def native_start_def)

lemma native_start_issued: "issued progs (native_start init progs)"
  by (auto simp: issued_def native_start_def)

lemma oversized_start_untorn: "untorn init (oversized_start init progs)"
  by (simp add: untorn_def oversized_start_def)

lemma oversized_start_issued: "issued progs (oversized_start init progs)"
  by (auto simp: issued_def oversized_start_def)

text \<open>
  Each step keeps both properties. A store of the native width writes its value and
  completes in the same step; a load returns the cell. In the oversized class the reads of
  the halves of \<^verbatim>\<open>expected\<close> touch no shared value, and the compare-and-swap writes the
  store's value, completing it, or writes nothing.
\<close>

lemma native_step_untorn: "untorn init s \<Longrightarrow> untorn init (native_step a i s)"
  using untorn_nth [of init s i]
  by (auto simp: native_step_def untorn_iff Let_def store_eq load_eq
      split: list.splits call.splits dest!: in_set_updateD; blast)

lemma native_step_issued: "issued progs s \<Longrightarrow> issued progs (native_step a i s)"
  using issued_nth [of progs s i]
  by (auto simp: native_step_def issued_iff Let_def store_eq load_eq
      split: list.splits call.splits dest!: in_set_updateD; blast)

lemma native_run_untorn: "untorn init s \<Longrightarrow> untorn init (native_run a sched s)"
  unfolding native_run_def
  by (induction sched arbitrary: s) (simp_all add: native_step_untorn)

lemma native_run_issued: "issued progs s \<Longrightarrow> issued progs (native_run a sched s)"
  unfolding native_run_def
  by (induction sched arbitrary: s) (simp_all add: native_step_issued)

lemma oversized_step_total: "\<exists>s'. oversized_step a x s = Some s'"
  by (auto simp: oversized_step_def Let_def load_oversized_eq compareAndSwap_oversized_eq
      split: list.splits call.splits progress.splits)

lemma oversized_step_untorn:
  "oversized_step a x s = Some s' \<Longrightarrow> untorn init s \<Longrightarrow> untorn init s'"
  using untorn_nth [of init s "fst x"]
  by (auto simp: oversized_step_def untorn_iff Let_def load_oversized_eq
      compareAndSwap_oversized_eq
      split: list.splits call.splits progress.splits if_splits dest!: in_set_updateD; blast)

lemma oversized_step_issued:
  "oversized_step a x s = Some s' \<Longrightarrow> issued progs s \<Longrightarrow> issued progs s'"
  using issued_nth [of progs s "fst x"]
  by (auto simp: oversized_step_def issued_iff Let_def load_oversized_eq
      compareAndSwap_oversized_eq
      split: list.splits call.splits progress.splits if_splits dest!: in_set_updateD; blast)

lemma oversized_run_untorn:
  "untorn init s \<Longrightarrow> issued progs s \<Longrightarrow>
   \<exists>s'. oversized_run a sched s = Some s' \<and> untorn init s' \<and> issued progs s'"
proof (induction sched arbitrary: s)
  case Nil
  then show ?case by simp
next
  case (Cons x sched)
  obtain s1 where s1: "oversized_step a x s = Some s1"
    using oversized_step_total by blast
  have "untorn init s1" "issued progs s1"
    using s1 Cons.prems by (auto intro: oversized_step_untorn oversized_step_issued)
  from Cons.IH [OF this] s1 show ?case by simp
qed

text \<open>
  C9. For any word type and any interleaving of concurrent \<^verbatim>\<open>store\<close> and \<^verbatim>\<open>load\<close> calls on
  one cell, every load returns the initial value or a value written by a completed store,
  never a mixture of two writes, and at every instant the cell holds the initial value or
  one of the values written to it. Here: after any schedule, from any initial value and any
  programs of the threads, the cell and all values returned by loads are the initial value
  or values of completed stores, and these are stores the programs make. A prefix of a
  schedule is a schedule, so this holds at every instant and for each load when it returns.
  The oversized run, whose steps could be \<open>None\<close>, always has a result.
\<close>

theorem store_load_atomicity:
  "untorn init (native_run a sched (native_start init progs)) \<and>
   issued progs (native_run a sched (native_start init progs)) \<and>
   (\<exists>s. oversized_run a' sched' (oversized_start init' progs') = Some s \<and>
        untorn init' s \<and> issued progs' s)"
  using native_run_untorn [OF native_start_untorn]
    native_run_issued [OF native_start_issued]
    oversized_run_untorn [OF oversized_start_untorn oversized_start_issued]
  by blast

text \<open>
  Two runs. On ARM, two threads of the native width store 5 and 9 into a cell holding 7 and
  load it. On x86, a thread of the oversized class reads the low half of \<^verbatim>\<open>expected\<close> from
  a cell holding \<open>0x1111111122222222\<close>, a second thread stores \<open>0x3333333344444444\<close>, and
  the first reads the high half: its \<^verbatim>\<open>expected\<close> is \<open>0x3333333322222222\<close>, a mixture of two
  values of the cell. The mixture stays in the thread, where the compare-and-swap will
  reject it; the cell and the stores are as the theorem says.
\<close>

theorem store_load_atomicity_witness:
  "native_run ARM [0, 1, 1, 0, 0]
     (native_start (7 :: 32 word) [[Store 5, Load], [Load, Store 9]]) =
     \<lparr>shared = 9,
      threads = [\<lparr>calls = [], returned = [9]\<rparr>, \<lparr>calls = [], returned = [5]\<rparr>],
      stored = [5, 9]\<rparr> \<and>
   untorn 7 \<lparr>shared = 9 :: 32 word,
      threads = [\<lparr>calls = [], returned = [9]\<rparr>, \<lparr>calls = [], returned = [5]\<rparr>],
      stored = [5, 9]\<rparr> \<and>
   oversized_run X86 [(0, True), (1, True), (1, False), (1, True), (0, True)]
     (oversized_start 0x1111111122222222 [[Store 5, Load], [Store 0x3333333344444444]]) =
     Some \<lparr>shared = 0x3333333344444444,
           threads = [\<lparr>calls = [Store 5, Load], returned = [],
                        progress = Have 0x3333333322222222\<rparr>,
                      \<lparr>calls = [], returned = [], progress = Idle\<rparr>],
           stored = [0x3333333344444444]\<rparr> \<and>
   untorn (0x1111111122222222 :: 64 word)
     \<lparr>shared = 0x3333333344444444,
      threads = [\<lparr>calls = [Store 5, Load], returned = [],
                   progress = Have 0x3333333322222222\<rparr>,
                 \<lparr>calls = [], returned = [], progress = Idle\<rparr>],
      stored = [0x3333333344444444]\<rparr>"
proof -
  have native:
    "native_run ARM [0, 1, 1, 0, 0]
       (native_start (7 :: 32 word) [[Store 5, Load], [Load, Store 9]]) =
     \<lparr>shared = 9,
      threads = [\<lparr>calls = [], returned = [9]\<rparr>, \<lparr>calls = [], returned = [5]\<rparr>],
      stored = [5, 9]\<rparr>"
    by code_simp
  have oversized:
    "oversized_run X86 [(0, True), (1, True), (1, False), (1, True), (0, True)]
       (oversized_start 0x1111111122222222 [[Store 5, Load], [Store 0x3333333344444444]]) =
     Some \<lparr>shared = 0x3333333344444444,
           threads = [\<lparr>calls = [Store 5, Load], returned = [],
                        progress = Have 0x3333333322222222\<rparr>,
                      \<lparr>calls = [], returned = [], progress = Idle\<rparr>],
           stored = [0x3333333344444444]\<rparr>"
    by code_simp
  note inst = store_load_atomicity
    [where a = ARM and sched = "[0, 1, 1, 0, 0]" and init = "7 :: 32 word"
       and progs = "[[Store 5, Load], [Load, Store 9]]"
       and a' = X86
       and sched' = "[(0, True), (1, True), (1, False), (1, True), (0, True)]"
       and init' = "0x1111111122222222"
       and progs' = "[[Store 5, Load], [Store 0x3333333344444444]]"]
  from inst have "untorn 7 \<lparr>shared = 9 :: 32 word,
      threads = [\<lparr>calls = [], returned = [9]\<rparr>, \<lparr>calls = [], returned = [5]\<rparr>],
      stored = [5, 9]\<rparr>"
    by (simp only: native)
  moreover from inst have "untorn (0x1111111122222222 :: 64 word)
     \<lparr>shared = 0x3333333344444444,
      threads = [\<lparr>calls = [Store 5, Load], returned = [],
                   progress = Have 0x3333333322222222\<rparr>,
                 \<lparr>calls = [], returned = [], progress = Idle\<rparr>],
      stored = [0x3333333344444444]\<rparr>"
    unfolding oversized by blast
  ultimately show ?thesis
    using native oversized by blast
qed

end
